theory Spec2Isabelle
  imports Main "HOL-Library.Word"
begin

section \<open>The gnmi command-line client (cmd/gnmi/main.go)\<close>

text \<open>
  A shallow embedding of \<^verbatim>\<open>cmd/gnmi/main.go\<close>: the argument loop of \<^verbatim>\<open>main\<close>, the
  executors \<^verbatim>\<open>set\<close> and \<^verbatim>\<open>subscribe\<close>, and the value decoders \<^verbatim>\<open>extractJSON\<close>,
  \<^verbatim>\<open>strVal\<close> and \<^verbatim>\<open>strDecimal64\<close>. Go's \<^verbatim>\<open>uint64\<close> and \<^verbatim>\<open>uint32\<close> are
  \<^typ>\<open>64 word\<close> and \<^typ>\<open>32 word\<close>; a \<^verbatim>\<open>string\<close> and a \<^verbatim>\<open>[]byte\<close> are both
  \<^typ>\<open>string\<close> (a list of bytes). A run-time panic is a value of type \<open>panic\<close>.
\<close>

subsection \<open>Errors and panics\<close>

text \<open>
  A Go \<^verbatim>\<open>error\<close> value. \<open>EOF\<close> is the sentinel \<^verbatim>\<open>io.EOF\<close>, which the code recognises
  by identity; \<open>Err s\<close> is any other error, with text \<open>s\<close> (\<^verbatim>\<open>errors.New(s)\<close>).
\<close>

datatype go_error = EOF | Err string

datatype panic = DivideByZero

subsection \<open>Decimal rendering of \<^verbatim>\<open>fmt\<close>\<close>

text \<open>
  The verbs \<^verbatim>\<open>%d\<close> and \<^verbatim>\<open>%v\<close> of Go's \<^verbatim>\<open>fmt\<close> on integers: decimal digits, most
  significant first, no padding, a leading minus sign for a negative value.
\<close>

definition digit_char :: "nat \<Rightarrow> char" where
  "digit_char n = ''0123456789'' ! n"

function fmt_nat :: "nat \<Rightarrow> string" where
  "fmt_nat n = (if n < 10 then [digit_char n] else fmt_nat (n div 10) @ [digit_char (n mod 10)])"
  by pat_completeness auto
termination
  by (relation "measure (\<lambda>n. n)") auto

declare fmt_nat.simps [simp del]

definition fmt_int :: "int \<Rightarrow> string" where
  "fmt_int i = (if i < 0 then CHR ''-'' # fmt_nat (nat (- i)) else fmt_nat (nat i))"

definition fmt_bool :: "bool \<Rightarrow> string" where
  "fmt_bool b = (if b then ''true'' else ''false'')"

subsection \<open>strDecimal64\<close>

text \<open>
  Modelled from the spec: the message \<^verbatim>\<open>pb.Decimal64\<close> is declared in the generated
  protocol package, which is not part of the sources. \<^verbatim>\<open>Digits\<close> is the unsigned
  64-bit scaled integer, which \<^verbatim>\<open>strDecimal64\<close> divides into its \<^verbatim>\<open>uint64\<close>
  variables. \<^verbatim>\<open>Precision\<close>, a small unsigned integer in the specification, is the
  \<^verbatim>\<open>uint32\<close> of the protocol; every precision used below is less than 256.
\<close>

record Decimal64 =
  Digits :: "64 word"
  Precision :: "32 word"

text \<open>
  The loop \<^verbatim>\<open>for it > 0 { div *= 10; it-- }\<close>. The multiplication is on \<^verbatim>\<open>uint64\<close>
  and wraps around.
\<close>

function div_loop :: "64 word \<Rightarrow> 32 word \<Rightarrow> 64 word" where
  "div_loop dv it = (if it > 0 then div_loop (dv * 10) (it - 1) else dv)"
  by pat_completeness auto
termination
proof (relation "measure (\<lambda>(dv, it). unat it)")
  show "wf (measure (\<lambda>(dv :: 64 word, it :: 32 word). unat it))"
    by simp
next
  fix dv :: "64 word" and it :: "32 word"
  assume "0 < it"
  then have "it \<noteq> 0"
    by auto
  then have "unat (it - 1) < unat it"
    by (simp add: unat_minus_one unat_gt_0)
  then show "((dv * 10, it - 1), (dv, it)) \<in> measure (\<lambda>(dv, it). unat it)"
    by simp
qed

declare div_loop.simps [simp del]

text \<open>
  The integer part \<^verbatim>\<open>i\<close> and the fractional part \<^verbatim>\<open>frac\<close> that \<^verbatim>\<open>strDecimal64\<close>
  computes before it formats them. Go panics on an integer division by zero.
\<close>

definition strDecimal64_parts :: "Decimal64 \<Rightarrow> panic + (64 word \<times> 64 word)" where
  "strDecimal64_parts d =
     (if Precision d > 0 then
        (let dv = div_loop 10 (Precision d - 1) in
         if dv = 0 then Inl DivideByZero
         else Inr (Digits d div dv, Digits d mod dv))
      else Inr (Digits d, 0))"

text \<open>\<^verbatim>\<open>fmt.Sprintf("%d.%d", i, frac)\<close> on the two parts.\<close>

definition strDecimal64 :: "Decimal64 \<Rightarrow> panic + string" where
  "strDecimal64 d =
     (case strDecimal64_parts d of
        Inl p \<Rightarrow> Inl p
      | Inr (i, frac) \<Rightarrow> Inr (fmt_nat (unat i) @ ''.'' @ fmt_nat (unat frac)))"

subsection \<open>Messages of the protocol\<close>

text \<open>
  Modelled from the spec: the generated protocol package \<^verbatim>\<open>pb\<close> is not part of the
  sources; its messages are modelled from the data model of the specification, with
  the field names that \<^verbatim>\<open>main.go\<close> reads and writes. Messages decoded from the wire
  have their nested messages allocated, so only the pointers that the code itself
  tests against \<^verbatim>\<open>nil\<close> are options here.
\<close>

record PathElem =
  Name :: string
  Key :: "(string \<times> string) list"

record Path =
  Element :: "string list"
  Elem :: "PathElem list"

text \<open>
  Modelled from the spec: the \<^verbatim>\<open>oneof\<close> of \<^verbatim>\<open>pb.TypedValue\<close>, with the variants
  that \<^verbatim>\<open>strVal\<close> distinguishes. \<open>IntVal\<close> holds an \<^verbatim>\<open>int64\<close>, read with
  \<^term>\<open>sint\<close>. \<open>OtherVal t\<close> is any variant that
  \<^verbatim>\<open>strVal\<close> has no case for; \<open>t\<close> is the name of its Go type, which \<^verbatim>\<open>%T\<close> prints.
\<close>

datatype isTypedValue_Value =
    StringVal string
  | JsonIetfVal string
  | IntVal "64 word"
  | UintVal "64 word"
  | BoolVal bool
  | BytesVal string
  | DecimalVal Decimal64
  | OtherVal string

datatype TypedValue = TypedValue (tv_Value: "isTypedValue_Value option")

text \<open>
  Modelled from the spec: \<^verbatim>\<open>pb.Update\<close>. \<open>upd_Value\<close> is the deprecated field \<^verbatim>\<open>Value\<close>: \<open>None\<close> for a
  \<^verbatim>\<open>nil\<close> pointer, otherwise the bytes \<^verbatim>\<open>Value.Value\<close>. \<open>upd_Val\<close> is the field
  \<^verbatim>\<open>Val\<close>, \<open>None\<close> for \<^verbatim>\<open>nil\<close>.
\<close>

record Update =
  upd_Path :: Path
  upd_Value :: "string option"
  upd_Val :: "TypedValue option"

text \<open>
  Modelled from the spec: the generated getter \<^verbatim>\<open>GetValue\<close>, which gives the
  populated variant and is safe on a \<^verbatim>\<open>nil\<close> receiver.
\<close>

fun GetValue :: "TypedValue option \<Rightarrow> isTypedValue_Value option" where
  "GetValue None = None"
| "GetValue (Some m) = tv_Value m"

text \<open>
  Modelled from the spec: \<^verbatim>\<open>pb.SetRequest\<close>, the three lists of a mutation request.
\<close>

record SetRequest =
  req_Delete :: "Path list"
  req_Replace :: "Update list"
  req_Update :: "Update list"

text \<open>
  Modelled from the spec: \<^verbatim>\<open>pb.Error\<close>, a status code with a message, and the field
  \<^verbatim>\<open>Message\<close> of \<^verbatim>\<open>pb.SetResponse\<close>, which \<^verbatim>\<open>set\<close> tests against \<^verbatim>\<open>nil\<close>.
\<close>

record Error =
  err_Code :: "32 word"
  err_Message :: string

record SetResponse =
  resp_Message :: "Error option"

text \<open>Modelled from the spec: \<^verbatim>\<open>codes.OK\<close> of the RPC library, the code 0.\<close>

definition codes_OK :: "32 word" where
  "codes_OK = 0"

text \<open>
  Modelled from the spec: the \<^verbatim>\<open>oneof\<close> of \<^verbatim>\<open>pb.SubscribeResponse\<close>: an error with its message, a sync
  response, a notification with its updates, or anything else (no case of the
  \<^verbatim>\<open>switch\<close> matches).
\<close>

datatype SubscribeResponse =
    RespError string
  | RespSyncResponse bool
  | RespUpdate "Update list"
  | RespOther

subsection \<open>The outside world\<close>

text \<open>
  What the executors do to the outside: the writes to standard output, in order, the
  Set requests sent to the server, and whether the context of a subscription has been
  cancelled, which closes its stream.
\<close>

record world =
  stdout :: "string list"
  sent :: "SetRequest list"
  cancelled :: bool

text \<open>
  How a call of an executor ends: it returns (\<open>None\<close> is \<^verbatim>\<open>nil\<close>), it panics, or
  it is still blocked in \<^verbatim>\<open>Recv\<close> when the responses known to the model are used up.
\<close>

datatype outcome = Returned "go_error option" | Panicked panic | Blocked

subsection \<open>strVal\<close>

definition strVal :: "Update \<Rightarrow> panic + string" where
  "strVal u =
     (case upd_Value u of
        Some bytes \<Rightarrow> Inr bytes
      | None \<Rightarrow>
          (case GetValue (upd_Val u) of
             Some (StringVal s) \<Rightarrow> Inr s
           | Some (JsonIetfVal j) \<Rightarrow> Inr j
           | Some (IntVal i) \<Rightarrow> Inr (fmt_int (sint i))
           | Some (UintVal n) \<Rightarrow> Inr (fmt_nat (unat n))
           | Some (BoolVal b) \<Rightarrow> Inr (fmt_bool b)
           | Some (BytesVal b) \<Rightarrow> Inr b
           | Some (DecimalVal d) \<Rightarrow> strDecimal64 d
           | Some (OtherVal t) \<Rightarrow> Inr (''[oops - '' @ t @ '']'')
           | None \<Rightarrow> Inr ''[oops - <nil>]''))"

subsection \<open>extractJSON, update, jsonval\<close>

text \<open>
  \<^verbatim>\<open>ioutil.ReadFile\<close> is a parameter: the file system, giving an error or the
  contents of the file.
\<close>

definition extractJSON :: "(string \<Rightarrow> go_error + string) \<Rightarrow> string \<Rightarrow> string" where
  "extractJSON ReadFile v =
     (case ReadFile v of
        Inl err \<Rightarrow> v
      | Inr jsonBytes \<Rightarrow> jsonBytes)"

definition jsonval :: "string \<Rightarrow> TypedValue" where
  "jsonval j = TypedValue (Some (JsonIetfVal j))"

definition update :: "Path \<Rightarrow> string \<Rightarrow> Update" where
  "update p v = \<lparr>upd_Path = p, upd_Value = None, upd_Val = Some (jsonval v)\<rparr>"

subsection \<open>The argument loop of main\<close>

record operation =
  opType :: string
  path :: "string list"
  val :: string

text \<open>
  \<^verbatim>\<open>exitWithError\<close> prints the usage and its message and ends the process with
  status 1. The message of an unknown operation quotes the token with \<^verbatim>\<open>%q\<close>; the
  model keeps the token. \<open>ExitUsage\<close> is the exit after the loop, with the usage only.
\<close>

datatype exit_status =
    ExitWithError string
  | ExitUnknownOperation string
  | ExitUsage

text \<open>
  What \<^verbatim>\<open>main\<close> does with its arguments: it ends the process, or it calls one
  executor. Only the executors talk to the server.
\<close>

datatype action =
    Exit exit_status
  | CallGet "string list list"
  | CallSubscribe "string list list"
  | CallSet "operation list"

fun calls_executor :: "action \<Rightarrow> bool" where
  "calls_executor (Exit e) = False"
| "calls_executor (CallGet paths) = True"
| "calls_executor (CallSubscribe paths) = True"
| "calls_executor (CallSet setOps) = True"

definition quoted :: "string \<Rightarrow> string" where
  "quoted s = [CHR 0x27] @ s @ [CHR 0x27]"

definition not_allowed :: "string \<Rightarrow> string" where
  "not_allowed kw =
     ''error: '' @ quoted kw @ '' not allowed after '' @ quoted ''merge|replace|delete''"

definition not_supported :: string where
  "not_supported = ''error: '' @ quoted ''capabilities'' @ '' not supported''"

text \<open>
  Modelled from the spec: \<^verbatim>\<open>gnmi.SplitPaths\<close> is not part of the sources; it splits
  each path token with \<^verbatim>\<open>gnmi.SplitPath\<close>, which is a parameter here.
\<close>

definition SplitPaths :: "(string \<Rightarrow> string list) \<Rightarrow> string list \<Rightarrow> string list list" where
  "SplitPaths SplitPath paths = map SplitPath paths"

text \<open>
  The loop \<^verbatim>\<open>for i := 0; i < len(args); i++\<close>, on the arguments from \<^verbatim>\<open>args[i]\<close> on,
  with the operations queued so far; the first equation is what follows the loop.
\<close>

fun main_loop :: "(string \<Rightarrow> string list) \<Rightarrow> operation list \<Rightarrow> string list \<Rightarrow> action" where
  "main_loop SplitPath setOps [] =
     (if length setOps = 0 then Exit ExitUsage else CallSet setOps)"
| "main_loop SplitPath setOps (a # rest) =
     (if a = ''capabilities'' then
        (if length setOps \<noteq> 0 then Exit (ExitWithError (not_allowed ''capabilities''))
         else Exit (ExitWithError not_supported))
      else if a = ''get'' then
        (if length setOps \<noteq> 0 then Exit (ExitWithError (not_allowed ''get''))
         else CallGet (SplitPaths SplitPath rest))
      else if a = ''subscribe'' then
        (if length setOps \<noteq> 0 then Exit (ExitWithError (not_allowed ''subscribe''))
         else CallSubscribe (SplitPaths SplitPath rest))
      else if a = ''update'' \<or> a = ''replace'' \<or> a = ''delete'' then
        (case rest of
           [] \<Rightarrow> Exit (ExitWithError ''error: missing path'')
         | p # rest1 \<Rightarrow>
             (if a \<noteq> ''delete'' then
                (case rest1 of
                   [] \<Rightarrow> Exit (ExitWithError ''error: missing JSON'')
                 | v # rest2 \<Rightarrow>
                     main_loop SplitPath
                       (setOps @ [\<lparr>opType = a, path = SplitPath p, val = v\<rparr>]) rest2)
              else
                main_loop SplitPath
                  (setOps @ [\<lparr>opType = a, path = SplitPath p, val = []\<rparr>]) rest1))
      else Exit (ExitUnknownOperation a))"

definition main :: "(string \<Rightarrow> string list) \<Rightarrow> string list \<Rightarrow> action" where
  "main SplitPath args = main_loop SplitPath [] args"

text \<open>
  The groups of the usage text, \<^verbatim>\<open>((update|replace PATH JSON)|(delete PATH))+\<close>, with
  the tokens of a group and the operation that the loop queues for it.
\<close>

datatype mutation =
    UpdateGroup string string
  | ReplaceGroup string string
  | DeleteGroup string

fun group_tokens :: "mutation \<Rightarrow> string list" where
  "group_tokens (UpdateGroup p v) = [''update'', p, v]"
| "group_tokens (ReplaceGroup p v) = [''replace'', p, v]"
| "group_tokens (DeleteGroup p) = [''delete'', p]"

fun group_op :: "(string \<Rightarrow> string list) \<Rightarrow> mutation \<Rightarrow> operation" where
  "group_op SplitPath (UpdateGroup p v) = \<lparr>opType = ''update'', path = SplitPath p, val = v\<rparr>"
| "group_op SplitPath (ReplaceGroup p v) = \<lparr>opType = ''replace'', path = SplitPath p, val = v\<rparr>"
| "group_op SplitPath (DeleteGroup p) = \<lparr>opType = ''delete'', path = SplitPath p, val = []\<rparr>"

definition groups_tokens :: "mutation list \<Rightarrow> string list" where
  "groups_tokens gs = concat (map group_tokens gs)"

text \<open>
  Modelled from the spec: \<^verbatim>\<open>gnmi.SplitPath\<close> is not part of the sources. This is a
  plain splitter at \<^verbatim>\<open>/\<close> that drops empty elements (\<^verbatim>\<open>/a/b\<close> gives \<^verbatim>\<open>a\<close>, \<^verbatim>\<open>b\<close>),
  for running the loop on concrete arguments; no general statement depends on it.
\<close>

fun slash_elements :: "string \<Rightarrow> string \<Rightarrow> string list" where
  "slash_elements cur [] = (if cur = [] then [] else [cur])"
| "slash_elements cur (c # cs) =
     (if c = CHR ''/'' then (if cur = [] then [] else [cur]) @ slash_elements [] cs
      else slash_elements (cur @ [c]) cs)"

definition slash_split :: "string \<Rightarrow> string list" where
  "slash_split s = slash_elements [] s"

subsection \<open>set\<close>

text \<open>
  The loop of \<^verbatim>\<open>set\<close> over the operations, building the request.
  \<^verbatim>\<open>gnmi.ParseGNMIElements\<close> is a parameter; an operation of any other type than the
  three of the \<^verbatim>\<open>switch\<close> leaves the request as it is.
\<close>

fun set_loop ::
  "(string list \<Rightarrow> go_error + PathElem list) \<Rightarrow> (string \<Rightarrow> go_error + string) \<Rightarrow>
   operation list \<Rightarrow> SetRequest \<Rightarrow> go_error + SetRequest" where
  "set_loop ParseGNMIElements ReadFile [] req = Inr req"
| "set_loop ParseGNMIElements ReadFile (op # ops) req =
     (case ParseGNMIElements (path op) of
        Inl err \<Rightarrow> Inl err
      | Inr elm \<Rightarrow>
          (let p = \<lparr>Element = path op, Elem = elm\<rparr> in
           set_loop ParseGNMIElements ReadFile ops
             (if opType op = ''delete'' then
                req\<lparr>req_Delete := req_Delete req @ [p]\<rparr>
              else if opType op = ''update'' then
                req\<lparr>req_Update := req_Update req @ [update p (extractJSON ReadFile (val op))]\<rparr>
              else if opType op = ''replace'' then
                req\<lparr>req_Replace := req_Replace req @ [update p (extractJSON ReadFile (val op))]\<rparr>
              else req)))"

text \<open>
  \<^verbatim>\<open>set\<close>, with the call \<^verbatim>\<open>client.Set\<close> as a parameter: the server's answer to a
  request. The request is recorded in the world when the call is made.
\<close>

definition set_cmd ::
  "(string list \<Rightarrow> go_error + PathElem list) \<Rightarrow> (string \<Rightarrow> go_error + string) \<Rightarrow>
   (SetRequest \<Rightarrow> go_error + SetResponse) \<Rightarrow> operation list \<Rightarrow> world \<Rightarrow>
   go_error option \<times> world" where
  "set_cmd ParseGNMIElements ReadFile client_Set setOps w =
     (case set_loop ParseGNMIElements ReadFile setOps
             \<lparr>req_Delete = [], req_Replace = [], req_Update = []\<rparr> of
        Inl err \<Rightarrow> (Some err, w)
      | Inr req \<Rightarrow>
          (let w1 = w\<lparr>sent := sent w @ [req]\<rparr> in
           case client_Set req of
             Inl err \<Rightarrow> (Some err, w1)
           | Inr resp \<Rightarrow>
               (case resp_Message resp of
                  None \<Rightarrow> (None, w1)
                | Some m \<Rightarrow>
                    if err_Code m \<noteq> codes_OK then (Some (Err (err_Message m)), w1)
                    else (None, w1))))"

subsection \<open>subscribe\<close>

text \<open>What one call of \<^verbatim>\<open>stream.Recv\<close> gives: a response or an error.\<close>

datatype recv = Recv SubscribeResponse | RecvErr go_error

text \<open>
  The inner loop over the updates of a notification. The arguments of \<^verbatim>\<open>Printf\<close>
  are evaluated before anything is written, so a panic of \<^verbatim>\<open>strVal\<close> leaves the
  line of that update unwritten.
\<close>

fun print_updates :: "(Path \<Rightarrow> string) \<Rightarrow> Update list \<Rightarrow> world \<Rightarrow> panic option \<times> world" where
  "print_updates StrPath [] w = (None, w)"
| "print_updates StrPath (u # us) w =
     (case strVal u of
        Inl p \<Rightarrow> (Some p, w)
      | Inr s \<Rightarrow>
          print_updates StrPath us
            (w\<lparr>stdout := stdout w @ [StrPath (upd_Path u) @ '' = '' @ s @ [CHR 0x0A]]\<rparr>))"

text \<open>
  The loop \<^verbatim>\<open>for { response, err := stream.Recv() ... }\<close> on the results of the
  successive calls of \<^verbatim>\<open>Recv\<close>. When the list is used up the loop has not returned:
  it waits in \<^verbatim>\<open>Recv\<close>.
\<close>

fun recv_loop :: "(Path \<Rightarrow> string) \<Rightarrow> recv list \<Rightarrow> world \<Rightarrow> outcome \<times> world" where
  "recv_loop StrPath [] w = (Blocked, w)"
| "recv_loop StrPath (RecvErr err # rs) w =
     (if err = EOF then (Returned None, w) else (Returned (Some err), w))"
| "recv_loop StrPath (Recv (RespError m) # rs) w = (Returned (Some (Err m)), w)"
| "recv_loop StrPath (Recv (RespSyncResponse b) # rs) w =
     (if \<not> b then (Returned (Some (Err ''initial sync failed'')), w)
      else recv_loop StrPath rs w)"
| "recv_loop StrPath (Recv (RespUpdate us) # rs) w =
     (case print_updates StrPath us w of
        (Some p, w1) \<Rightarrow> (Panicked p, w1)
      | (None, w1) \<Rightarrow> recv_loop StrPath rs w1)"
| "recv_loop StrPath (Recv RespOther # rs) w = recv_loop StrPath rs w"

text \<open>
  The client of a subscription: the error of \<^verbatim>\<open>client.Subscribe\<close>, the error of
  \<^verbatim>\<open>stream.Send\<close> (\<open>None\<close> is \<^verbatim>\<open>nil\<close>), and the results of \<^verbatim>\<open>stream.Recv\<close>.
\<close>

record sub_client =
  Subscribe_err :: "go_error option"
  Send_err :: "go_error option"
  Recv_results :: "recv list"

text \<open>
  \<^verbatim>\<open>subscribe\<close>. \<^verbatim>\<open>gnmi.NewSubscribeRequest\<close> is a parameter, of which only the
  error matters. \<^verbatim>\<open>defer cancel()\<close> runs when the function is left, by a return or
  by a panic.
\<close>

definition subscribe_body ::
  "(Path \<Rightarrow> string) \<Rightarrow> (string list list \<Rightarrow> go_error option) \<Rightarrow> sub_client \<Rightarrow>
   string list list \<Rightarrow> world \<Rightarrow> outcome \<times> world" where
  "subscribe_body StrPath NewSubscribeRequest client paths w =
     (case Subscribe_err client of
        Some err \<Rightarrow> (Returned (Some err), w)
      | None \<Rightarrow>
          (case NewSubscribeRequest paths of
             Some err \<Rightarrow> (Returned (Some err), w)
           | None \<Rightarrow>
               (case Send_err client of
                  Some err \<Rightarrow> (Returned (Some err), w)
                | None \<Rightarrow> recv_loop StrPath (Recv_results client) w)))"

definition subscribe ::
  "(Path \<Rightarrow> string) \<Rightarrow> (string list list \<Rightarrow> go_error option) \<Rightarrow> sub_client \<Rightarrow>
   string list list \<Rightarrow> world \<Rightarrow> outcome \<times> world" where
  "subscribe StrPath NewSubscribeRequest client paths w =
     (case subscribe_body StrPath NewSubscribeRequest client paths w of
        (Blocked, w1) \<Rightarrow> (Blocked, w1)
      | (r, w1) \<Rightarrow> (r, w1\<lparr>cancelled := True\<rparr>))"

text \<open>
  The loop read from the specification of the subscription: a response lets the loop
  go on (\<open>continues\<close>) or ends it with an outcome (\<open>stop_outcome\<close>). An update
  notification lets it go on when every value in it can be rendered.
\<close>

fun continues :: "recv \<Rightarrow> bool" where
  "continues (RecvErr err) = False"
| "continues (Recv (RespError m)) = False"
| "continues (Recv (RespSyncResponse b)) = b"
| "continues (Recv (RespUpdate us)) = list_all (\<lambda>u. \<not> isl (strVal u)) us"
| "continues (Recv RespOther) = True"

fun stop_outcome :: "recv \<Rightarrow> outcome" where
  "stop_outcome (RecvErr err) = (if err = EOF then Returned None else Returned (Some err))"
| "stop_outcome (Recv (RespError m)) = Returned (Some (Err m))"
| "stop_outcome (Recv (RespSyncResponse b)) = Returned (Some (Err ''initial sync failed''))"
| "stop_outcome (Recv (RespUpdate us)) = Panicked DivideByZero"
| "stop_outcome (Recv RespOther) = Blocked"

subsection \<open>Collaborators for concrete runs\<close>

text \<open>
  The collaborators that are parameters above, fixed to simple instances so that the
  executors can be run on concrete inputs: a file system with one file, a path parser
  that rejects an empty element, a server that refuses deletions, a request builder
  that accepts every list of paths, and a path printer that joins the elements with
  slashes.
\<close>

definition one_file :: "string \<Rightarrow> go_error + string" where
  "one_file name =
     (if name = ''ops.json'' then Inr ''[1, 2]'' else Inl (Err ''no such file''))"

definition parse_nonempty :: "string list \<Rightarrow> go_error + PathElem list" where
  "parse_nonempty elems =
     (if [] \<in> set elems then Inl (Err ''empty element'')
      else Inr (map (\<lambda>n. \<lparr>Name = n, Key = []\<rparr>) elems))"

definition refuse_delete :: "SetRequest \<Rightarrow> go_error + SetResponse" where
  "refuse_delete req =
     (if req_Delete req = [] then Inr \<lparr>resp_Message = Some \<lparr>err_Code = 0, err_Message = []\<rparr>\<rparr>
      else Inr \<lparr>resp_Message = Some \<lparr>err_Code = 7, err_Message = ''permission denied''\<rparr>\<rparr>)"

definition accept_paths :: "string list list \<Rightarrow> go_error option" where
  "accept_paths paths = None"

definition slash_join :: "Path \<Rightarrow> string" where
  "slash_join p = concat (map (\<lambda>e. CHR ''/'' # e) (Element p))"

definition world0 :: world where
  "world0 = \<lparr>stdout = [], sent = [], cancelled = False\<rparr>"

text \<open>An update whose value is the decimal with digits 1 and precision 64.\<close>

definition decimal_update :: Update where
  "decimal_update =
     \<lparr>upd_Path = \<lparr>Element = [''a''], Elem = []\<rparr>, upd_Value = None,
      upd_Val = Some (TypedValue (Some (DecimalVal \<lparr>Digits = 1, Precision = 64\<rparr>)))\<rparr>"

section \<open>Properties\<close>

subsection \<open>The Decimal64 converter\<close>

lemma div_loop_power: "div_loop dv it = dv * 10 ^ unat it"
proof (induction dv it rule: div_loop.induct)
  case (1 dv it)
  show ?case
  proof (cases "it = 0")
    case True
    then show ?thesis
      by (simp add: div_loop.simps [of dv 0])
  next
    case False
    then have pos: "0 < it"
      by (simp add: word_gt_0)
    from False have "unat it = Suc (unat (it - 1))"
      by (simp add: unat_minus_one unat_gt_0)
    with 1 [OF pos] pos show ?thesis
      by (simp add: div_loop.simps [of dv it] mult.assoc)
  qed
qed

lemma divisor_of_precision:
  assumes "Precision d \<noteq> 0"
  shows "div_loop 10 (Precision d - 1) = 10 ^ unat (Precision d)"
proof -
  from assms have "Suc (unat (Precision d - 1)) = unat (Precision d)"
    by (simp add: unat_minus_one unat_gt_0)
  then show ?thesis
    by (simp add: div_loop_power flip: power_Suc)
qed

text \<open>
  Up to precision 19 the divisor is \<open>10 ^ precision\<close> without wrap-around, and the two
  parts give the digits back.
\<close>

lemma strDecimal64_parts_exact:
  assumes "unat (Precision d) \<le> 19"
  shows "\<exists>i frac. strDecimal64_parts d = Inr (i, frac) \<and>
           unat i * 10 ^ unat (Precision d) + unat frac = unat (Digits d)"
proof (cases "Precision d = 0")
  case True
  then show ?thesis
    by (simp add: strDecimal64_parts_def)
next
  case False
  define p where "p = unat (Precision d)"
  have dv: "div_loop 10 (Precision d - 1) = (10::64 word) ^ p"
    using False by (simp add: divisor_of_precision p_def)
  have "(10::nat) ^ p \<le> 10 ^ 19"
    using assms by (intro power_increasing) (auto simp: p_def)
  then have lt: "(10::nat) ^ p < 2 ^ 64"
    by simp
  have "(10::64 word) ^ p = of_nat (10 ^ p)"
    by simp
  then have "unat ((10::64 word) ^ p) = (10 ^ p) mod 2 ^ 64"
    by (simp only: unat_of_nat len_of_numeral_defs) simp
  with lt have un: "unat ((10::64 word) ^ p) = 10 ^ p"
    by simp
  then have nz: "(10::64 word) ^ p \<noteq> 0"
    by (metis unat_0 power_not_zero zero_neq_numeral)
  have pos: "0 < Precision d"
    using False by (simp add: word_gt_0)
  have "unat (Digits d div 10 ^ p) * 10 ^ p + unat (Digits d mod 10 ^ p) = unat (Digits d)"
    by (simp only: unat_div unat_mod un div_mult_mod_eq)
  then show ?thesis
    using pos nz by (simp add: strDecimal64_parts_def dv Let_def flip: p_def)
qed

text \<open>The wrapped divisor is zero exactly from precision 64 on.\<close>

lemma ten_power_word_zero_iff: "(10::64 word) ^ p = 0 \<longleftrightarrow> 64 \<le> p"
proof -
  have "(10::64 word) ^ p = of_nat (10 ^ p)"
    by simp
  then have "(10::64 word) ^ p = 0 \<longleftrightarrow> (2::nat) ^ 64 dvd 10 ^ p"
    by (simp only: word_of_nat_eq_0_iff len_of_numeral_defs) simp
  also have "(10::nat) ^ p = 2 ^ p * 5 ^ p"
    by (simp flip: power_mult_distrib)
  also have "(2::nat) ^ 64 dvd 2 ^ p * 5 ^ p \<longleftrightarrow> (2::nat) ^ 64 dvd 2 ^ p"
  proof (rule coprime_dvd_mult_left_iff)
    have "odd ((5::nat) ^ p)"
      by simp
    then have "coprime (2::nat) (5 ^ p)"
      by (simp add: coprime_left_2_iff_odd)
    then show "coprime ((2::nat) ^ 64) (5 ^ p)"
      by (rule coprime_power_left_iff [THEN iffD2, OF disjI1])
  qed
  also have "\<dots> \<longleftrightarrow> 64 \<le> p"
    by (rule dvd_power_iff_le) simp
  finally show ?thesis .
qed

lemma strDecimal64_parts_panics_iff:
  "strDecimal64_parts d = Inl pn \<longleftrightarrow> 64 \<le> unat (Precision d)"
proof (cases "Precision d = 0")
  case True
  then show ?thesis
    by (simp add: strDecimal64_parts_def)
next
  case False
  then have pos: "0 < Precision d"
    by (simp add: word_gt_0)
  from False pos show ?thesis
    by (cases pn)
      (simp add: strDecimal64_parts_def divisor_of_precision ten_power_word_zero_iff Let_def)
qed

text \<open>
  C1. For every input, the integer part \<open>i\<close> and the fractional part \<open>frac\<close> satisfy
  \<open>i * 10 ^ precision + frac = digits\<close>. The code computes the divisor in 64 bits: at
  digits \<open>10 ^ 19\<close> and precision 20 the divisor has wrapped to 7766279631452241920, the
  parts are 1 and 2233720368547758080, and \<open>1 * 10 ^ 20 + 2233720368547758080\<close> is not
  \<open>10 ^ 19\<close>; at precision 64 the divisor is 0 and the division panics, so there are no
  parts at all.
\<close>

theorem strDecimal64_divisor_wraps:
  "strDecimal64_parts \<lparr>Digits = 10000000000000000000, Precision = 20\<rparr>
     = Inr (1, 2233720368547758080)
   \<and> strDecimal64 \<lparr>Digits = 10000000000000000000, Precision = 20\<rparr>
     = Inr ''1.2233720368547758080''
   \<and> strDecimal64_parts \<lparr>Digits = 1, Precision = 64\<rparr> = Inl DivideByZero
   \<and> strDecimal64 \<lparr>Digits = 1, Precision = 64\<rparr> = Inl DivideByZero"
  by (simp add: strDecimal64_def strDecimal64_parts_def div_loop_power fmt_nat.simps
      digit_char_def)

subsection \<open>The value decoder\<close>

lemma strVal_legacy: "upd_Value u = Some bytes \<Longrightarrow> strVal u = Inr bytes"
  by (simp add: strVal_def)

lemma strVal_variants:
  assumes "upd_Value u = None"
  shows "GetValue (upd_Val u) = Some (StringVal s) \<Longrightarrow> strVal u = Inr s"
    and "GetValue (upd_Val u) = Some (JsonIetfVal j) \<Longrightarrow> strVal u = Inr j"
    and "GetValue (upd_Val u) = Some (BytesVal b) \<Longrightarrow> strVal u = Inr b"
    and "GetValue (upd_Val u) = Some (IntVal i) \<Longrightarrow> strVal u = Inr (fmt_int (sint i))"
    and "GetValue (upd_Val u) = Some (UintVal n) \<Longrightarrow> strVal u = Inr (fmt_nat (unat n))"
    and "GetValue (upd_Val u) = Some (BoolVal t) \<Longrightarrow> strVal u = Inr (fmt_bool t)"
    and "GetValue (upd_Val u) = Some (DecimalVal d) \<Longrightarrow> strVal u = strDecimal64 d"
    and "GetValue (upd_Val u) = Some (OtherVal ty) \<Longrightarrow> strVal u = Inr (''[oops - '' @ ty @ '']'')"
    and "GetValue (upd_Val u) = None \<Longrightarrow> strVal u = Inr ''[oops - <nil>]''"
  using assms by (simp_all add: strVal_def)

text \<open>
  \<^verbatim>\<open>strVal\<close> panics exactly on a decimal of precision 64 or more that is not hidden by
  the deprecated field.
\<close>

lemma strVal_panics_iff:
  "strVal u = Inl pn \<longleftrightarrow>
     upd_Value u = None \<and>
     (\<exists>d. GetValue (upd_Val u) = Some (DecimalVal d) \<and> 64 \<le> unat (Precision d))"
  by (auto simp add: strVal_def strDecimal64_def
      strDecimal64_parts_panics_iff [symmetric, of _ pn]
      split: option.splits isTypedValue_Value.splits sum.splits)

text \<open>
  C3. \<^verbatim>\<open>strVal\<close> is total and never fails. On an update whose value is the decimal
  with digits 1 and precision 64 the code panics with a division by zero instead of
  returning a text.
\<close>

theorem strVal_decimal_panics:
  "strVal decimal_update = Inl DivideByZero"
  by (simp add: decimal_update_def strVal_def strDecimal64_def strDecimal64_parts_def
      div_loop_power)

subsection \<open>JSON extraction\<close>

text \<open>
  C9. \<^verbatim>\<open>extractJSON\<close> has no error to report: when the token names a readable file
  the payload is the contents of the file, otherwise it is the token itself.
\<close>

theorem extractJSON_file_or_literal:
  "(ReadFile v = Inr contents \<longrightarrow> extractJSON ReadFile v = contents)
   \<and> (ReadFile v = Inl err \<longrightarrow> extractJSON ReadFile v = v)"
  by (simp add: extractJSON_def)

theorem extractJSON_file_or_literal_witness:
  "one_file ''ops.json'' = Inr ''[1, 2]'' \<and> extractJSON one_file ''ops.json'' = ''[1, 2]''
   \<and> one_file ''{}'' = Inl (Err ''no such file'') \<and> extractJSON one_file ''{}'' = ''{}''"
  using extractJSON_file_or_literal [of one_file "''ops.json''" "''[1, 2]''" "Err ''no such file''"]
    extractJSON_file_or_literal [of one_file "''{}''" "''[1, 2]''" "Err ''no such file''"]
  by (simp add: one_file_def)

subsection \<open>The argument loop\<close>

lemma main_loop_group:
  "main_loop sp ops (group_tokens g @ rest) = main_loop sp (ops @ [group_op sp g]) rest"
  by (cases g) simp_all

lemma main_loop_groups:
  "main_loop sp ops (groups_tokens gs @ rest) = main_loop sp (ops @ map (group_op sp) gs) rest"
proof (induction gs arbitrary: ops)
  case Nil
  then show ?case
    by (simp add: groups_tokens_def)
next
  case (Cons g gs)
  have "main_loop sp ops (groups_tokens (g # gs) @ rest)
      = main_loop sp ops (group_tokens g @ (groups_tokens gs @ rest))"
    by (simp add: groups_tokens_def)
  also have "\<dots> = main_loop sp (ops @ [group_op sp g]) (groups_tokens gs @ rest)"
    by (rule main_loop_group)
  also have "\<dots> = main_loop sp ((ops @ [group_op sp g]) @ map (group_op sp) gs) rest"
    by (rule Cons.IH)
  finally show ?case
    by simp
qed

lemma main_after_groups:
  "main sp (groups_tokens gs @ rest) = main_loop sp (map (group_op sp) gs) rest"
  by (simp add: main_def main_loop_groups [of sp "[]", simplified])

text \<open>
  A leading \<^verbatim>\<open>get\<close> or \<^verbatim>\<open>subscribe\<close> ends the loop at once: every token after it is
  split as a path, whatever it is, and none is examined as a keyword.
\<close>

lemma main_read_takes_rest:
  "main sp (''get'' # rest) = CallGet (map sp rest)"
  "main sp (''subscribe'' # rest) = CallSubscribe (map sp rest)"
  by (simp_all add: main_def SplitPaths_def)

text \<open>
  C2. When \<^verbatim>\<open>get\<close> or \<^verbatim>\<open>subscribe\<close> is the first keyword, the remaining tokens
  become the paths and there is at least one path. With \<^verbatim>\<open>get\<close> or \<^verbatim>\<open>subscribe\<close>
  as the only argument the code calls the executor with no path at all.
\<close>

theorem main_read_without_path:
  "main sp [''get''] = CallGet [] \<and> main sp [''subscribe''] = CallSubscribe []"
  by (simp add: main_def SplitPaths_def)

text \<open>
  A \<^verbatim>\<open>get\<close> that follows the keyword \<^verbatim>\<open>update\<close> in the place of its path is the
  path, not a keyword: the arguments \<^verbatim>\<open>update get x\<close> are accepted.
\<close>

theorem main_update_takes_get_as_path:
  "main slash_split [''update'', ''get'', ''x'']
     = CallSet [\<lparr>opType = ''update'', path = [''get''], val = ''x''\<rparr>]"
  by (simp add: main_def slash_split_def)

text \<open>
  C4 (amended). After one or more complete groups \<^verbatim>\<open>update PATH JSON\<close>,
  \<^verbatim>\<open>replace PATH JSON\<close> or \<^verbatim>\<open>delete PATH\<close>, a next token \<^verbatim>\<open>get\<close>, \<^verbatim>\<open>subscribe\<close> or
  \<^verbatim>\<open>capabilities\<close> ends the process with the usage error that the keyword is not
  allowed there, whatever follows it.
\<close>

theorem main_read_after_mutation:
  assumes "gs \<noteq> []"
    and "k = ''get'' \<or> k = ''subscribe'' \<or> k = ''capabilities''"
  shows "main sp (groups_tokens gs @ k # rest) = Exit (ExitWithError (not_allowed k))"
proof -
  from assms(1) have "length (map (group_op sp) gs) \<noteq> 0"
    by simp
  with assms(2) show ?thesis
    by (auto simp add: main_after_groups simp del: length_map)
qed

theorem main_read_after_mutation_witness:
  "[UpdateGroup ''/a'' ''1''] \<noteq> []
   \<and> (''get'' = ''get'' \<or> ''get'' = ''subscribe'' \<or> ''get'' = ''capabilities'')
   \<and> main slash_split [''update'', ''/a'', ''1'', ''get'', ''/b'']
     = Exit (ExitWithError
         (''error: '' @ quoted ''get'' @ '' not allowed after '' @ quoted ''merge|replace|delete''))"
  using main_read_after_mutation [of "[UpdateGroup ''/a'' ''1'']" "''get''" slash_split "[''/b'']"]
  by (simp add: groups_tokens_def not_allowed_def)

text \<open>
  A \<^verbatim>\<open>capabilities\<close> after a leading \<^verbatim>\<open>get\<close> is a path: the arguments
  \<^verbatim>\<open>get capabilities\<close> call the Get executor, with no mutation keyword anywhere.
\<close>

theorem main_get_takes_capabilities_as_path:
  "main slash_split [''get'', ''capabilities''] = CallGet [[''capabilities'']]"
  by (simp add: main_def SplitPaths_def slash_split_def)

text \<open>
  C5 (amended). When \<^verbatim>\<open>capabilities\<close> is the first token, the process ends with the
  usage error that it is not supported, whatever follows, and no executor is called.
\<close>

theorem main_capabilities_first:
  "main sp (''capabilities'' # rest) = Exit (ExitWithError not_supported)
   \<and> \<not> calls_executor (main sp (''capabilities'' # rest))
   \<and> not_supported = ''error: '' @ [CHR 0x27] @ ''capabilities'' @ [CHR 0x27] @ '' not supported''"
  by (simp add: main_def not_supported_def quoted_def)

text \<open>
  C6. After any complete groups, an \<^verbatim>\<open>update\<close> or \<^verbatim>\<open>replace\<close> that is the last token
  ends with "missing path", and one followed by a single token with "missing JSON"; a
  \<^verbatim>\<open>delete\<close> that is the last token ends with "missing path"; a \<^verbatim>\<open>delete\<close> with its
  path is complete: at the end of the arguments the Set executor is called, and before
  further tokens the loop goes on with the token after the path.
\<close>

theorem main_missing_tokens:
  assumes "kw = ''update'' \<or> kw = ''replace''"
  shows "main sp (groups_tokens gs @ [kw]) = Exit (ExitWithError ''error: missing path'')
       \<and> main sp (groups_tokens gs @ [kw, p]) = Exit (ExitWithError ''error: missing JSON'')
       \<and> main sp (groups_tokens gs @ [''delete'']) = Exit (ExitWithError ''error: missing path'')
       \<and> main sp (groups_tokens gs @ [''delete'', p])
           = CallSet (map (group_op sp) gs @ [\<lparr>opType = ''delete'', path = sp p, val = []\<rparr>])
       \<and> main_loop sp ops (''delete'' # p # rest)
           = main_loop sp (ops @ [\<lparr>opType = ''delete'', path = sp p, val = []\<rparr>]) rest"
  using assms by (auto simp add: main_after_groups)

theorem main_missing_tokens_witness:
  "(''replace'' = ''update'' \<or> ''replace'' = ''replace'')
   \<and> main slash_split [''update'', ''/a'', ''1'', ''replace'']
       = Exit (ExitWithError ''error: missing path'')
   \<and> main slash_split [''update'', ''/a'', ''1'', ''replace'', ''/b'']
       = Exit (ExitWithError ''error: missing JSON'')
   \<and> main slash_split [''update'', ''/a'', ''1'', ''delete'']
       = Exit (ExitWithError ''error: missing path'')
   \<and> main slash_split [''update'', ''/a'', ''1'', ''delete'', ''/b'']
       = CallSet [\<lparr>opType = ''update'', path = [''a''], val = ''1''\<rparr>,
                  \<lparr>opType = ''delete'', path = [''b''], val = []\<rparr>]"
  using main_missing_tokens [of "''replace''" slash_split "[UpdateGroup ''/a'' ''1'']" "''/b''"]
  by (simp add: groups_tokens_def slash_split_def)

subsection \<open>The Set executor\<close>

lemma set_loop_first_error:
  assumes "\<exists>op \<in> set ops. isl (P (path op))"
  shows "\<exists>pre op post err. ops = pre @ op # post \<and> (\<forall>x \<in> set pre. \<not> isl (P (path x)))
           \<and> P (path op) = Inl err \<and> set_loop P R ops req = Inl err"
  using assms
proof (induction ops arbitrary: req)
  case Nil
  then show ?case
    by simp
next
  case (Cons a ops)
  show ?case
  proof (cases "P (path a)")
    case (Inl err)
    then have "a # ops = [] @ a # ops \<and> (\<forall>x \<in> set []. \<not> isl (P (path x)))
           \<and> P (path a) = Inl err \<and> set_loop P R (a # ops) req = Inl err"
      by simp
    then show ?thesis
      by blast
  next
    case (Inr elm)
    with Cons.prems have ex: "\<exists>op \<in> set ops. isl (P (path op))"
      by auto
    define req1 where "req1 =
      (let p = \<lparr>Element = path a, Elem = elm\<rparr> in
       if opType a = ''delete'' then
         req\<lparr>req_Delete := req_Delete req @ [p]\<rparr>
       else if opType a = ''update'' then
         req\<lparr>req_Update := req_Update req @ [update p (extractJSON R (val a))]\<rparr>
       else if opType a = ''replace'' then
         req\<lparr>req_Replace := req_Replace req @ [update p (extractJSON R (val a))]\<rparr>
       else req)"
    have step: "set_loop P R (a # ops) req = set_loop P R ops req1"
      using Inr by (simp add: req1_def Let_def)
    from Cons.IH [OF ex, of req1] obtain pre op post err where
      h: "ops = pre @ op # post" "\<forall>x \<in> set pre. \<not> isl (P (path x))"
         "P (path op) = Inl err" "set_loop P R ops req1 = Inl err"
      by blast
    from h Inr step
    have "a # ops = (a # pre) @ op # post \<and> (\<forall>x \<in> set (a # pre). \<not> isl (P (path x)))
           \<and> P (path op) = Inl err \<and> set_loop P R (a # ops) req = Inl err"
      by simp
    then show ?thesis
      by blast
  qed
qed

text \<open>
  C10. If the path of some operation fails to parse, \<^verbatim>\<open>set\<close> returns the error of
  the first such operation and leaves the world as it was: no request has been sent.
\<close>

theorem set_cmd_parse_error_sends_nothing:
  assumes "\<exists>op \<in> set ops. isl (P (path op))"
  shows "\<exists>pre op post err. ops = pre @ op # post \<and> (\<forall>x \<in> set pre. \<not> isl (P (path x)))
           \<and> P (path op) = Inl err \<and> set_cmd P R client_Set ops w = (Some err, w)"
proof -
  from set_loop_first_error [OF assms, of R "\<lparr>req_Delete = [], req_Replace = [], req_Update = []\<rparr>"]
  obtain pre op post err where
      h: "ops = pre @ op # post" "\<forall>x \<in> set pre. \<not> isl (P (path x))"
         "P (path op) = Inl err"
         "set_loop P R ops \<lparr>req_Delete = [], req_Replace = [], req_Update = []\<rparr> = Inl err"
    by blast
  then have "set_cmd P R client_Set ops w = (Some err, w)"
    by (simp add: set_cmd_def)
  with h show ?thesis
    by blast
qed

theorem set_cmd_parse_error_sends_nothing_witness:
  "(\<exists>op \<in> set [\<lparr>opType = ''delete'', path = [''a''], val = []\<rparr>,
                  \<lparr>opType = ''update'', path = [''a'', [], ''b''], val = ''1''\<rparr>].
      isl (parse_nonempty (path op)))
   \<and> (\<exists>pre op post err.
        [\<lparr>opType = ''delete'', path = [''a''], val = []\<rparr>,
         \<lparr>opType = ''update'', path = [''a'', [], ''b''], val = ''1''\<rparr>] = pre @ op # post
        \<and> (\<forall>x \<in> set pre. \<not> isl (parse_nonempty (path x)))
        \<and> parse_nonempty (path op) = Inl err
        \<and> set_cmd parse_nonempty one_file refuse_delete
             [\<lparr>opType = ''delete'', path = [''a''], val = []\<rparr>,
              \<lparr>opType = ''update'', path = [''a'', [], ''b''], val = ''1''\<rparr>] world0
            = (Some err, world0))
   \<and> set_cmd parse_nonempty one_file refuse_delete
        [\<lparr>opType = ''delete'', path = [''a''], val = []\<rparr>,
         \<lparr>opType = ''update'', path = [''a'', [], ''b''], val = ''1''\<rparr>] world0
       = (Some (Err ''empty element''), world0)"
proof -
  have h: "\<exists>op \<in> set [\<lparr>opType = ''delete'', path = [''a''], val = []\<rparr>,
                  \<lparr>opType = ''update'', path = [''a'', [], ''b''], val = ''1''\<rparr>].
      isl (parse_nonempty (path op))"
    by (simp add: parse_nonempty_def)
  have e: "set_cmd parse_nonempty one_file refuse_delete
        [\<lparr>opType = ''delete'', path = [''a''], val = []\<rparr>,
         \<lparr>opType = ''update'', path = [''a'', [], ''b''], val = ''1''\<rparr>] world0
       = (Some (Err ''empty element''), world0)"
    by (simp add: set_cmd_def parse_nonempty_def)
  from h set_cmd_parse_error_sends_nothing [OF h, of one_file refuse_delete world0] e
  show ?thesis
    by blast
qed

text \<open>
  C8. When the request has been built and the call has succeeded, a response whose
  message carries a code other than OK makes \<^verbatim>\<open>set\<close> return an error with the text
  of that message; a response with the code OK, or with no message, makes it return
  \<^verbatim>\<open>nil\<close>. In both cases nothing is written to standard output.
\<close>

theorem set_cmd_status:
  assumes "set_loop P R ops \<lparr>req_Delete = [], req_Replace = [], req_Update = []\<rparr> = Inr req"
    and "client_Set req = Inr resp"
  shows "(\<forall>m. resp_Message resp = Some m \<and> err_Code m \<noteq> codes_OK \<longrightarrow>
            set_cmd P R client_Set ops w
              = (Some (Err (err_Message m)), w\<lparr>sent := sent w @ [req]\<rparr>))
       \<and> (resp_Message resp = None \<or> (\<exists>m. resp_Message resp = Some m \<and> err_Code m = codes_OK) \<longrightarrow>
            set_cmd P R client_Set ops w = (None, w\<lparr>sent := sent w @ [req]\<rparr>))
       \<and> stdout (snd (set_cmd P R client_Set ops w)) = stdout w"
  using assms by (auto simp add: set_cmd_def Let_def split: option.splits)

theorem set_cmd_status_witness:
  "set_cmd parse_nonempty one_file refuse_delete
     [\<lparr>opType = ''delete'', path = [''a''], val = []\<rparr>] world0
     = (Some (Err ''permission denied''),
        world0\<lparr>sent := sent world0 @
          [\<lparr>req_Delete = [\<lparr>Element = [''a''], Elem = [\<lparr>Name = ''a'', Key = []\<rparr>]\<rparr>],
            req_Replace = [], req_Update = []\<rparr>]\<rparr>)
   \<and> set_cmd parse_nonempty one_file refuse_delete
       [\<lparr>opType = ''update'', path = [''a''], val = ''ops.json''\<rparr>] world0
     = (None,
        world0\<lparr>sent := sent world0 @
          [\<lparr>req_Delete = [], req_Replace = [],
            req_Update = [update \<lparr>Element = [''a''], Elem = [\<lparr>Name = ''a'', Key = []\<rparr>]\<rparr>
                            ''[1, 2]'']\<rparr>]\<rparr>)"
proof -
  let ?e = "\<lparr>req_Delete = [], req_Replace = [], req_Update = []\<rparr>"
  let ?pa = "\<lparr>Element = [''a''], Elem = [\<lparr>Name = ''a'', Key = []\<rparr>]\<rparr>"
  let ?rd = "\<lparr>req_Delete = [?pa], req_Replace = [], req_Update = []\<rparr>"
  let ?ru = "\<lparr>req_Delete = [], req_Replace = [], req_Update = [update ?pa ''[1, 2]'']\<rparr>"
  let ?denied = "\<lparr>err_Code = 7, err_Message = ''permission denied''\<rparr>"
  let ?ok = "\<lparr>err_Code = 0, err_Message = []\<rparr>"
  have d1: "set_loop parse_nonempty one_file
              [\<lparr>opType = ''delete'', path = [''a''], val = []\<rparr>] ?e = Inr ?rd"
    by (simp add: parse_nonempty_def)
  have d2: "refuse_delete ?rd = Inr \<lparr>resp_Message = Some ?denied\<rparr>"
    by (simp add: refuse_delete_def)
  have u1: "set_loop parse_nonempty one_file
              [\<lparr>opType = ''update'', path = [''a''], val = ''ops.json''\<rparr>] ?e = Inr ?ru"
    by (simp add: parse_nonempty_def extractJSON_def one_file_def)
  have u2: "refuse_delete ?ru = Inr \<lparr>resp_Message = Some ?ok\<rparr>"
    by (simp add: refuse_delete_def)
  have c: "err_Code ?denied \<noteq> codes_OK" "err_Code ?ok = codes_OK"
    by (simp_all add: codes_OK_def)
  from set_cmd_status [where client_Set = refuse_delete and w = world0, OF d1 d2]
    set_cmd_status [where client_Set = refuse_delete and w = world0, OF u1 u2] c
  show ?thesis
    by simp
qed

subsection \<open>The Subscribe executor\<close>

lemma print_updates_ok:
  "list_all (\<lambda>u. \<not> isl (strVal u)) us \<Longrightarrow> fst (print_updates S us w) = None"
  by (induction us arbitrary: w) (auto split: sum.splits)

lemma print_updates_panic:
  "\<not> list_all (\<lambda>u. \<not> isl (strVal u)) us \<Longrightarrow> fst (print_updates S us w) = Some DivideByZero"
proof (induction us arbitrary: w)
  case Nil
  then show ?case
    by simp
next
  case (Cons u us)
  show ?case
  proof (cases "strVal u")
    case (Inl pn)
    then show ?thesis
      by (cases pn) simp
  next
    case (Inr s)
    with Cons.prems have "\<not> list_all (\<lambda>u. \<not> isl (strVal u)) us"
      by simp
    from Cons.IH [OF this] Inr show ?thesis
      by simp
  qed
qed

text \<open>
  The loop ends at the first response that does not let it go on, with the outcome
  of that response; while there is none, it waits.
\<close>

lemma recv_loop_outcome:
  "fst (recv_loop S rs w) =
     (case dropWhile continues rs of [] \<Rightarrow> Blocked | r # rest \<Rightarrow> stop_outcome r)"
proof (induction S rs w rule: recv_loop.induct)
  case (5 StrPath us rs w)
  show ?case
  proof (cases "list_all (\<lambda>u. \<not> isl (strVal u)) us")
    case True
    from print_updates_ok [OF True, of StrPath w]
    obtain w1 where p: "print_updates StrPath us w = (None, w1)"
      by (cases "print_updates StrPath us w") simp
    with 5 True show ?thesis
      by simp
  next
    case False
    from print_updates_panic [OF False, of StrPath w]
    obtain w1 where p: "print_updates StrPath us w = (Some DivideByZero, w1)"
      by (cases "print_updates StrPath us w") simp
    with False show ?thesis
      by simp
  qed
qed simp_all

text \<open>Leaving \<^verbatim>\<open>subscribe\<close>, by a return or by a panic, cancels the context.\<close>

lemma subscribe_cancels:
  "fst (subscribe S N c paths w) \<noteq> Blocked \<Longrightarrow> cancelled (snd (subscribe S N c paths w))"
  by (cases "subscribe_body S N c paths w"; cases "fst (subscribe_body S N c paths w)")
     (auto simp add: subscribe_def)

lemma subscribe_outcome:
  "fst (subscribe S N c paths w) = fst (subscribe_body S N c paths w)"
  by (cases "subscribe_body S N c paths w"; cases "fst (subscribe_body S N c paths w)")
     (auto simp add: subscribe_def)

text \<open>
  C7. The receive loop ends with a failure exactly on an error response, on a sync
  response that is false, or on a receive error other than the end of the stream. On a
  stream that sends a sync response and then a notification with the decimal of
  precision 64, the code ends with a panic, which is none of the three; the deferred
  cancellation still runs.
\<close>

theorem subscribe_update_panics:
  "subscribe slash_join accept_paths
     \<lparr>Subscribe_err = None, Send_err = None,
      Recv_results = [Recv (RespSyncResponse True), Recv (RespUpdate [decimal_update])]\<rparr>
     [[''a'']] world0
   = (Panicked DivideByZero, world0\<lparr>cancelled := True\<rparr>)"
  by (simp add: subscribe_def subscribe_body_def accept_paths_def decimal_update_def
      strVal_def strDecimal64_def strDecimal64_parts_def div_loop_power)

end
